theory Spec2Isabelle
  imports Main
begin

section \<open>Python values, exceptions and the imported interface\<close>

text \<open>
  The server of \<^verbatim>\<open>era_5g_server/server.py\<close> is the class
  \<^verbatim>\<open>NetworkApplicationServer\<close>. Its methods are embedded below, one definition per
  method, as functions that take the server object \<open>self\<close>, the method's arguments and
  the world, and return the method's result with the new world.
\<close>

datatype pyval = PyNone | PyBool bool | PyStr string | PyDict "(string \<times> pyval) list"

text \<open>A control payload, \<^verbatim>\<open>Dict[str, Any]\<close>: the keys with their values.\<close>

type_synonym payload = "(string \<times> pyval) list"

text \<open>
  A raised exception. \<open>TypeError r\<close> is an exception that \<^verbatim>\<open>except TypeError\<close>
  catches, \<open>OtherError r\<close> any other one; \<open>r\<close> is the text \<^verbatim>\<open>repr(e)\<close> gives.
\<close>

datatype exn = TypeError string | OtherError string

fun repr :: "exn \<Rightarrow> string" where
  "repr (TypeError r) = r"
| "repr (OtherError r) = r"

text \<open>\<^verbatim>\<open>str(x)\<close> for \<^verbatim>\<open>x: Optional[str]\<close>.\<close>

fun str_optional :: "string option \<Rightarrow> string" where
  "str_optional None = ''None''"
| "str_optional (Some s) = s"

subsection \<open>The transport's session tables\<close>

text \<open>
  Modelled from the spec: the Socket.IO transport (\<^verbatim>\<open>self._sio\<close>, its manager) is
  not part of the sources. Section 9 of the spec describes its session-to-id tables as a
  map indexed by (namespace, session id) and a secondary map indexed by
  (namespace, connection id), both updated together on connect and disconnect; section 6
  says it resolves a namespace-scoped session id from and to a transport-level connection
  id. A lookup that finds nothing gives Python's \<^verbatim>\<open>None\<close>, the value that
  \<^verbatim>\<open>get_sid_of_namespace\<close> wraps in \<^verbatim>\<open>str(...)\<close>.
\<close>

record manager =
  by_sid :: "string \<times> string \<rightharpoonup> string"
  by_eio :: "string \<times> string \<rightharpoonup> string"

definition sid_from_eio_sid :: "manager \<Rightarrow> string \<Rightarrow> string \<Rightarrow> string option" where
  "sid_from_eio_sid m eio_sid ns = by_eio m (ns, eio_sid)"

definition eio_sid_from_sid :: "manager \<Rightarrow> string \<Rightarrow> string \<Rightarrow> string option" where
  "eio_sid_from_sid m sid ns = by_sid m (ns, sid)"

definition mgr_connect :: "string \<Rightarrow> string \<Rightarrow> string \<Rightarrow> manager \<Rightarrow> manager" where
  "mgr_connect ns sid eio_sid m =
     m\<lparr>by_sid := (by_sid m)((ns, sid) \<mapsto> eio_sid), by_eio := (by_eio m)((ns, eio_sid) \<mapsto> sid)\<rparr>"

definition mgr_disconnect :: "string \<Rightarrow> string \<Rightarrow> manager \<Rightarrow> manager" where
  "mgr_disconnect ns sid m =
     (case by_sid m (ns, sid) of
        None \<Rightarrow> m
      | Some eio_sid \<Rightarrow>
          m\<lparr>by_sid := (by_sid m)((ns, sid) := None), by_eio := (by_eio m)((ns, eio_sid) := None)\<rparr>)"

definition no_sessions :: manager where
  "no_sessions = \<lparr>by_sid = Map.empty, by_eio = Map.empty\<rparr>"

subsection \<open>What the server imports from \<^verbatim>\<open>era_5g_interface\<close>\<close>

text \<open>
  The package \<^verbatim>\<open>era_5g_interface\<close> is not part of the sources, so everything
  \<^verbatim>\<open>server.py\<close> takes from it is a parameter: the three string constants, the
  constructor \<^verbatim>\<open>ControlCommand(**data)\<close> (it returns the command object or raises),
  the rendering of \<^verbatim>\<open>control_command.cmd_type\<close> inside an f-string, and the method
  \<^verbatim>\<open>get_client_eio_sid\<close> of the \<^verbatim>\<open>ServerChannels\<close> object, which reads the
  transport's tables and returns a \<^verbatim>\<open>str\<close>. The command object is opaque to the
  server: its type is the parameter \<open>'c\<close>.
\<close>

record 'c interface =
  COMMAND_ERROR_EVENT :: string
  CONTROL_NAMESPACE :: string
  DATA_NAMESPACE :: string
  ControlCommand :: "payload \<Rightarrow> exn + 'c"
  cmd_type_str :: "'c \<Rightarrow> string"
  get_client_eio_sid :: "manager \<Rightarrow> string \<Rightarrow> string \<Rightarrow> string"

section \<open>The server object and the world it acts on\<close>

text \<open>
  One call \<^verbatim>\<open>self._sio.emit(event, data, namespace=..., to=...)\<close>. \<open>em_to = None\<close> is
  a call without \<^verbatim>\<open>to=\<close>.
\<close>

record emission =
  em_event :: string
  em_data :: pyval
  em_namespace :: string
  em_to :: "string option"

text \<open>
  The journal lists, in program order, every call the server's own code makes to the
  logger, to the transport and to a disconnect or command handler. \<open>Call_command_callback\<close>
  and \<open>Call_disconnect_callback\<close> are calls of the user-supplied attributes
  \<^verbatim>\<open>self._command_callback\<close> and \<^verbatim>\<open>self._disconnect_callback\<close>; the two
  \<open>Call_default\<close> entries are calls of the methods \<^verbatim>\<open>self.command_callback\<close> and
  \<^verbatim>\<open>self.disconnect_callback\<close>.
\<close>

datatype 'c action =
    Log_info string
  | Log_error string
  | Emit emission
  | Call_command_callback 'c string
  | Call_default_command_callback 'c string
  | Call_disconnect_callback string
  | Call_default_disconnect_callback string

text \<open>
  The world: the transport's tables, the application state \<open>'a\<close> that the user-supplied
  callbacks own, and the journal.
\<close>

record ('a, 'c) world =
  manager :: manager
  app :: 'a
  journal :: "'c action list"

text \<open>
  The attributes of \<^verbatim>\<open>self\<close> that the methods read. A user-supplied callback receives
  the arguments the source passes, acts on the application state, and returns or raises.
  \<open>priv_command_callback\<close> is \<^verbatim>\<open>self._command_callback\<close> and
  \<open>priv_disconnect_callback\<close> is \<^verbatim>\<open>self._disconnect_callback\<close>; \<open>None\<close> is the
  constructor's default.
\<close>

record ('a, 'c) server =
  iface :: "'c interface"
  priv_command_callback :: "('c \<Rightarrow> string \<Rightarrow> 'a \<Rightarrow> (exn + bool \<times> string) \<times> 'a) option"
  priv_disconnect_callback :: "(string \<Rightarrow> 'a \<Rightarrow> (exn + unit) \<times> 'a) option"

definition logger_info :: "string \<Rightarrow> ('a, 'c) world \<Rightarrow> ('a, 'c) world" where
  "logger_info msg w = w\<lparr>journal := journal w @ [Log_info msg]\<rparr>"

definition logger_error :: "string \<Rightarrow> ('a, 'c) world \<Rightarrow> ('a, 'c) world" where
  "logger_error msg w = w\<lparr>journal := journal w @ [Log_error msg]\<rparr>"

definition sio_emit ::
  "string \<Rightarrow> pyval \<Rightarrow> string \<Rightarrow> string option \<Rightarrow> ('a, 'c) world \<Rightarrow> ('a, 'c) world" where
  "sio_emit ev d ns target w =
     w\<lparr>journal := journal w @
        [Emit \<lparr>em_event = ev, em_data = d, em_namespace = ns, em_to = target\<rparr>]\<rparr>"

text \<open>\<^verbatim>\<open>self._sio.send(data, namespace=...)\<close> emits the event \<^verbatim>\<open>message\<close>.\<close>

definition sio_send :: "pyval \<Rightarrow> string \<Rightarrow> string option \<Rightarrow> ('a, 'c) world \<Rightarrow> ('a, 'c) world" where
  "sio_send d ns target w = sio_emit ''message'' d ns target w"

definition record_call :: "'c action \<Rightarrow> ('a, 'c) world \<Rightarrow> ('a, 'c) world" where
  "record_call a w = w\<lparr>journal := journal w @ [a]\<rparr>"

definition call_user :: "('a \<Rightarrow> 'r \<times> 'a) \<Rightarrow> ('a, 'c) world \<Rightarrow> 'r \<times> ('a, 'c) world" where
  "call_user f w = (case f (app w) of (r, a) \<Rightarrow> (r, w\<lparr>app := a\<rparr>))"

text \<open>
  Modelled from the spec: who receives an emission is decided by the transport. Section 6
  names its emit-to-session and broadcast operations, and section 4.4 says that an emission
  to a session that has disconnected is dropped. An emission without \<^verbatim>\<open>to=\<close> reaches
  every session of the namespace.
\<close>

definition recipients :: "manager \<Rightarrow> emission \<Rightarrow> string set" where
  "recipients m em =
     (case em_to em of
        None \<Rightarrow> {sid. by_sid m (em_namespace em, sid) \<noteq> None}
      | Some sid \<Rightarrow> (if by_sid m (em_namespace em, sid) \<noteq> None then {sid} else {}))"

subsection \<open>Reading the journal\<close>

fun emitted :: "'c action list \<Rightarrow> emission list" where
  "emitted [] = []"
| "emitted (Emit em # j) = em # emitted j"
| "emitted (_ # j) = emitted j"

fun command_calls :: "'c action list \<Rightarrow> ('c \<times> string) list" where
  "command_calls [] = []"
| "command_calls (Call_command_callback c sid # j) = (c, sid) # command_calls j"
| "command_calls (_ # j) = command_calls j"

fun default_command_calls :: "'c action list \<Rightarrow> ('c \<times> string) list" where
  "default_command_calls [] = []"
| "default_command_calls (Call_default_command_callback c sid # j) = (c, sid) # default_command_calls j"
| "default_command_calls (_ # j) = default_command_calls j"

fun disconnect_calls :: "'c action list \<Rightarrow> string list" where
  "disconnect_calls [] = []"
| "disconnect_calls (Call_disconnect_callback sid # j) = sid # disconnect_calls j"
| "disconnect_calls (_ # j) = disconnect_calls j"

fun default_disconnect_calls :: "'c action list \<Rightarrow> string list" where
  "default_disconnect_calls [] = []"
| "default_disconnect_calls (Call_default_disconnect_callback sid # j) = sid # default_disconnect_calls j"
| "default_disconnect_calls (_ # j) = default_disconnect_calls j"

section \<open>The methods of \<^verbatim>\<open>NetworkApplicationServer\<close>\<close>

definition get_sid_of_namespace :: "('a, 'c) server \<Rightarrow> string \<Rightarrow> string \<Rightarrow> ('a, 'c) world \<Rightarrow> string" where
  "get_sid_of_namespace self eio_sid ns w = str_optional (sid_from_eio_sid (manager w) eio_sid ns)"

definition get_eio_sid_of_namespace :: "('a, 'c) server \<Rightarrow> string \<Rightarrow> string \<Rightarrow> ('a, 'c) world \<Rightarrow> string" where
  "get_eio_sid_of_namespace self sid ns w = get_client_eio_sid (iface self) (manager w) sid ns"

definition get_sid_of_data :: "('a, 'c) server \<Rightarrow> string \<Rightarrow> ('a, 'c) world \<Rightarrow> string" where
  "get_sid_of_data self eio_sid w = get_sid_of_namespace self eio_sid (DATA_NAMESPACE (iface self)) w"

definition get_sid_of_control :: "('a, 'c) server \<Rightarrow> string \<Rightarrow> ('a, 'c) world \<Rightarrow> string" where
  "get_sid_of_control self eio_sid w = get_sid_of_namespace self eio_sid (CONTROL_NAMESPACE (iface self)) w"

definition get_eio_sid_of_data :: "('a, 'c) server \<Rightarrow> string \<Rightarrow> ('a, 'c) world \<Rightarrow> string" where
  "get_eio_sid_of_data self sid w = get_client_eio_sid (iface self) (manager w) sid (DATA_NAMESPACE (iface self))"

definition get_eio_sid_of_control :: "('a, 'c) server \<Rightarrow> string \<Rightarrow> ('a, 'c) world \<Rightarrow> string" where
  "get_eio_sid_of_control self sid w = get_client_eio_sid (iface self) (manager w) sid (CONTROL_NAMESPACE (iface self))"

definition send_command_error :: "('a, 'c) server \<Rightarrow> string \<Rightarrow> string \<Rightarrow> ('a, 'c) world \<Rightarrow> unit \<times> ('a, 'c) world" where
  "send_command_error self message sid w =
     ((), sio_emit (COMMAND_ERROR_EVENT (iface self)) (PyDict [(''error'', PyStr message)])
            (CONTROL_NAMESPACE (iface self)) (Some sid) w)"

text \<open>The WSGI environ enters the log line only; \<open>environ\<close> is its \<^verbatim>\<open>str()\<close> text.\<close>

definition data_connect_callback :: "('a, 'c) server \<Rightarrow> string \<Rightarrow> string \<Rightarrow> ('a, 'c) world \<Rightarrow> unit \<times> ('a, 'c) world" where
  "data_connect_callback self sid environ w =
     (let w1 = logger_info
            (''Client '' @ get_client_eio_sid (iface self) (manager w) sid (DATA_NAMESPACE (iface self))
             @ '' connected to '' @ DATA_NAMESPACE (iface self) @ '' namespace '' @ sid
             @ '', environ '' @ environ) w
      in ((), sio_send (PyStr (''You are connected to '' @ DATA_NAMESPACE (iface self) @ '' namespace '' @ sid))
                (DATA_NAMESPACE (iface self)) None w1))"

definition control_connect_callback :: "('a, 'c) server \<Rightarrow> string \<Rightarrow> string \<Rightarrow> ('a, 'c) world \<Rightarrow> unit \<times> ('a, 'c) world" where
  "control_connect_callback self sid environ w =
     (let w1 = logger_info
            (''Client '' @ get_client_eio_sid (iface self) (manager w) sid (CONTROL_NAMESPACE (iface self))
             @ '' connected to '' @ CONTROL_NAMESPACE (iface self) @ '' namespace '' @ sid
             @ '', environ '' @ environ) w
      in ((), sio_send (PyStr (''You are connected to '' @ CONTROL_NAMESPACE (iface self) @ '' namespace '' @ sid))
                (CONTROL_NAMESPACE (iface self)) None w1))"

definition command_callback :: "('a, 'c) server \<Rightarrow> 'c \<Rightarrow> string \<Rightarrow> bool \<times> string" where
  "command_callback self control_command sid = (True, ''Control command callback applied'')"

definition disconnect_callback :: "('a, 'c) server \<Rightarrow> string \<Rightarrow> unit" where
  "disconnect_callback self sid = ()"

definition control_command_callback ::
  "('a, 'c) server \<Rightarrow> string \<Rightarrow> payload \<Rightarrow> ('a, 'c) world \<Rightarrow> (exn + bool \<times> string) \<times> ('a, 'c) world" where
  "control_command_callback self sid data w =
     (case ControlCommand (iface self) data of
        Inl (TypeError r) \<Rightarrow>
          (let e = TypeError r;
               w1 = logger_error (''Could not parse Control Command. '' @ repr e) w;
               w2 = sio_emit (COMMAND_ERROR_EVENT (iface self))
                      (PyDict [(''error'', PyStr (''Could not parse Control Command. '' @ repr e))])
                      (CONTROL_NAMESPACE (iface self)) (Some sid) w1
           in (Inr (False, ''Could not parse Control Command. '' @ repr e), w2))
      | Inl (OtherError r) \<Rightarrow> (Inl (OtherError r), w)
      | Inr control_command \<Rightarrow>
          (let w1 = logger_info
                 (''Control command '' @ cmd_type_str (iface self) control_command @ '' parsed, eio_sid ''
                  @ get_eio_sid_of_control self sid w @ '', sid '' @ sid) w
           in (case priv_command_callback self of
                 Some cb \<Rightarrow>
                   call_user (cb control_command sid)
                     (record_call (Call_command_callback control_command sid) w1)
               | None \<Rightarrow>
                   (Inr (command_callback self control_command sid),
                    record_call (Call_default_command_callback control_command sid) w1))))"

definition data_disconnect_callback ::
  "('a, 'c) server \<Rightarrow> string \<Rightarrow> ('a, 'c) world \<Rightarrow> (exn + unit) \<times> ('a, 'c) world" where
  "data_disconnect_callback self sid w =
     (case (case priv_disconnect_callback self of
              Some cb \<Rightarrow> call_user (cb sid) (record_call (Call_disconnect_callback sid) w)
            | None \<Rightarrow> (Inr (disconnect_callback self sid),
                       record_call (Call_default_disconnect_callback sid) w)) of
        (Inl e, w1) \<Rightarrow> (Inl e, w1)
      | (Inr u, w1) \<Rightarrow>
          (Inr (),
           logger_info (''Client with eio_sid '' @ get_eio_sid_of_data self sid w1
                        @ '' disconnected from '' @ DATA_NAMESPACE (iface self)
                        @ '' namespace, sid '' @ sid) w1))"

definition control_disconnect_callback :: "('a, 'c) server \<Rightarrow> string \<Rightarrow> ('a, 'c) world \<Rightarrow> unit \<times> ('a, 'c) world" where
  "control_disconnect_callback self sid w =
     ((), logger_info (''Client with eio_sid '' @ get_eio_sid_of_control self sid w
                       @ '' disconnected from '' @ CONTROL_NAMESPACE (iface self)
                       @ '' namespace, sid '' @ sid) w)"

subsection \<open>The transport delivering connect and disconnect events\<close>

text \<open>
  Modelled from the spec: the delivery of the events is the transport's and is not part of
  the sources. Section 4.2: on connect the Namespace Session is recorded and the connect
  callback registered for the namespace runs with the tables already consistent; on
  disconnect the disconnect callback registered for the namespace runs to completion and
  then the session is removed. A callback that raises ends the processing of its event.
  The five registration points are those of the constructor (\<^verbatim>\<open>self._sio.on\<close>).
\<close>

definition on_connect_data ::
  "('a, 'c) server \<Rightarrow> string \<Rightarrow> string \<Rightarrow> string \<Rightarrow> ('a, 'c) world \<Rightarrow> unit \<times> ('a, 'c) world" where
  "on_connect_data self sid eio_sid environ w =
     data_connect_callback self sid environ
       (w\<lparr>manager := mgr_connect (DATA_NAMESPACE (iface self)) sid eio_sid (manager w)\<rparr>)"

definition on_connect_control ::
  "('a, 'c) server \<Rightarrow> string \<Rightarrow> string \<Rightarrow> string \<Rightarrow> ('a, 'c) world \<Rightarrow> unit \<times> ('a, 'c) world" where
  "on_connect_control self sid eio_sid environ w =
     control_connect_callback self sid environ
       (w\<lparr>manager := mgr_connect (CONTROL_NAMESPACE (iface self)) sid eio_sid (manager w)\<rparr>)"

definition on_disconnect_data ::
  "('a, 'c) server \<Rightarrow> string \<Rightarrow> ('a, 'c) world \<Rightarrow> (exn + unit) \<times> ('a, 'c) world" where
  "on_disconnect_data self sid w =
     (case data_disconnect_callback self sid w of
        (Inl e, w1) \<Rightarrow> (Inl e, w1)
      | (Inr u, w1) \<Rightarrow>
          (Inr (), w1\<lparr>manager := mgr_disconnect (DATA_NAMESPACE (iface self)) sid (manager w1)\<rparr>))"

definition on_disconnect_control ::
  "('a, 'c) server \<Rightarrow> string \<Rightarrow> ('a, 'c) world \<Rightarrow> unit \<times> ('a, 'c) world" where
  "on_disconnect_control self sid w =
     (case control_disconnect_callback self sid w of
        (u, w1) \<Rightarrow> ((), w1\<lparr>manager := mgr_disconnect (CONTROL_NAMESPACE (iface self)) sid (manager w1)\<rparr>))"

definition on_command ::
  "('a, 'c) server \<Rightarrow> string \<Rightarrow> payload \<Rightarrow> ('a, 'c) world \<Rightarrow> (exn + bool \<times> string) \<times> ('a, 'c) world" where
  "on_command self sid data w = control_command_callback self sid data w"

section \<open>A concrete instance of the parameters\<close>

text \<open>
  Modelled from the spec: the dataclass \<^verbatim>\<open>ControlCommand\<close> is not part of the sources.
  Sections 3 and 6: a mapping of named fields with the mandatory discriminator
  \<^verbatim>\<open>cmd_type\<close>; unknown fields and missing required fields cause rejection, and no
  command is constructed then. \<open>optional\<close> names the command-specific fields. The texts of
  the two exceptions stand for whatever \<^verbatim>\<open>repr\<close> gives.
\<close>

record control_command =
  cmd_type :: pyval
  cmd_fields :: payload

definition ControlCommand_spec :: "string list \<Rightarrow> payload \<Rightarrow> exn + control_command" where
  "ControlCommand_spec optional data =
     (case filter (\<lambda>k. k \<notin> set (''cmd_type'' # optional)) (map fst data) of
        k # ks \<Rightarrow> Inl (TypeError (''TypeError(unexpected keyword argument '' @ k @ '')''))
      | [] \<Rightarrow>
          (case map_of data ''cmd_type'' of
             None \<Rightarrow> Inl (TypeError ''TypeError(missing required argument cmd_type)'')
           | Some t \<Rightarrow> Inr \<lparr>cmd_type = t, cmd_fields = filter (\<lambda>kv. fst kv \<noteq> ''cmd_type'') data\<rparr>))"

text \<open>
  The instance renders a discriminator that is a string as that string; other values get a
  fixed text, on which no statement below depends.
\<close>

fun cmd_type_text :: "pyval \<Rightarrow> string" where
  "cmd_type_text (PyStr s) = s"
| "cmd_type_text v = ''cmd_type''"

text \<open>
  Modelled from the spec: \<^verbatim>\<open>ServerChannels.get_client_eio_sid\<close> is not part of the
  sources. Section 6: the collaborator resolves a namespace-scoped session id to the
  transport-level connection id. The instance returns a \<^verbatim>\<open>str\<close> as the server's own
  lookup does.
\<close>

definition ServerChannels_get_client_eio_sid :: "manager \<Rightarrow> string \<Rightarrow> string \<Rightarrow> string" where
  "ServerChannels_get_client_eio_sid m sid ns = str_optional (eio_sid_from_sid m sid ns)"

definition example_interface :: "control_command interface" where
  "example_interface =
     \<lparr>COMMAND_ERROR_EVENT = ''command_error'',
      CONTROL_NAMESPACE = ''control'',
      DATA_NAMESPACE = ''data'',
      ControlCommand = ControlCommand_spec [''clear_queue'', ''data''],
      cmd_type_str = (\<lambda>c. cmd_type_text (cmd_type c)),
      get_client_eio_sid = ServerChannels_get_client_eio_sid\<rparr>"

text \<open>
  Two servers over an application state that lists the sessions served: one constructed
  without callbacks, one with a command handler that accepts the command \<^verbatim>\<open>INIT\<close> only
  and a disconnect handler; both handlers note the session they were called for.
\<close>

definition plain_server :: "(string list, control_command) server" where
  "plain_server =
     \<lparr>iface = example_interface, priv_command_callback = None, priv_disconnect_callback = None\<rparr>"

definition init_only :: "control_command \<Rightarrow> string \<Rightarrow> string list \<Rightarrow> (exn + bool \<times> string) \<times> string list" where
  "init_only c sid a =
     (if cmd_type c = PyStr ''INIT'' then (Inr (True, ''initialised''), a @ [sid])
      else (Inr (False, ''unsupported command''), a @ [sid]))"

definition note_disconnect :: "string \<Rightarrow> string list \<Rightarrow> (exn + unit) \<times> string list" where
  "note_disconnect sid a = (Inr (), a @ [sid])"

definition custom_server :: "(string list, control_command) server" where
  "custom_server =
     \<lparr>iface = example_interface, priv_command_callback = Some init_only,
      priv_disconnect_callback = Some note_disconnect\<rparr>"

definition fresh_world :: "(string list, control_command) world" where
  "fresh_world = \<lparr>manager = no_sessions, app = [], journal = []\<rparr>"

text \<open>
  Two worlds reached by events: one with the session \<open>d1\<close> of connection \<open>e1\<close> on the
  DATA namespace, and one in which the session \<open>c1\<close> of connection \<open>e1\<close> has connected
  to the CONTROL namespace and disconnected again.
\<close>

definition one_data_client :: "(string list, control_command) world" where
  "one_data_client = snd (on_connect_data plain_server ''d1'' ''e1'' ''environ'' fresh_world)"

definition after_control_disconnect :: "(string list, control_command) world" where
  "after_control_disconnect =
     snd (on_disconnect_control plain_server ''c1''
            (snd (on_connect_control plain_server ''c1'' ''e1'' ''environ'' fresh_world)))"

text \<open>A world with the session \<open>c1\<close> of connection \<open>e1\<close> on the CONTROL namespace.\<close>

definition one_control_client :: "(string list, control_command) world" where
  "one_control_client = snd (on_connect_control plain_server ''c1'' ''e1'' ''environ'' fresh_world)"

section \<open>The lookups as the spec words them, and a repeated caller\<close>

text \<open>
  The Identity Mapper of section 4.1 of the spec, in the spec's words, for comparison with
  \<^verbatim>\<open>get_sid_of_namespace\<close> and \<^verbatim>\<open>get_eio_sid_of_namespace\<close>: each lookup returns
  the identifier, or fails with \<open>NotFoundError\<close> if no session of that namespace exists
  for the given connection.
\<close>

datatype identity_lookup = NotFoundError | Found string

definition sessionIdForNamespace :: "manager \<Rightarrow> string \<Rightarrow> string \<Rightarrow> identity_lookup" where
  "sessionIdForNamespace m transportConnectionId ns =
     (case sid_from_eio_sid m transportConnectionId ns of
        None \<Rightarrow> NotFoundError
      | Some namespaceSessionId \<Rightarrow> Found namespaceSessionId)"

definition connectionIdForSession :: "manager \<Rightarrow> string \<Rightarrow> string \<Rightarrow> identity_lookup" where
  "connectionIdForSession m namespaceSessionId ns =
     (case eio_sid_from_sid m namespaceSessionId ns of
        None \<Rightarrow> NotFoundError
      | Some transportConnectionId \<Rightarrow> Found transportConnectionId)"

text \<open>A caller that calls \<^verbatim>\<open>send_command_error\<close> \<open>n\<close> times with the same arguments.\<close>

fun send_command_error_repeatedly ::
  "('a, 'c) server \<Rightarrow> string \<Rightarrow> string \<Rightarrow> nat \<Rightarrow> ('a, 'c) world \<Rightarrow> ('a, 'c) world" where
  "send_command_error_repeatedly self message sid 0 w = w"
| "send_command_error_repeatedly self message sid (Suc n) w =
     send_command_error_repeatedly self message sid n (snd (send_command_error self message sid w))"

section \<open>Facts about the journal\<close>

lemma emitted_append: "emitted (j @ k) = emitted j @ emitted k"
  by (induction j rule: emitted.induct) simp_all

lemma command_calls_append: "command_calls (j @ k) = command_calls j @ command_calls k"
  by (induction j rule: command_calls.induct) simp_all

lemma default_command_calls_append:
  "default_command_calls (j @ k) = default_command_calls j @ default_command_calls k"
  by (induction j rule: default_command_calls.induct) simp_all

lemma disconnect_calls_append: "disconnect_calls (j @ k) = disconnect_calls j @ disconnect_calls k"
  by (induction j rule: disconnect_calls.induct) simp_all

lemma default_disconnect_calls_append:
  "default_disconnect_calls (j @ k) = default_disconnect_calls j @ default_disconnect_calls k"
  by (induction j rule: default_disconnect_calls.induct) simp_all

lemmas journal_append =
  emitted_append command_calls_append default_command_calls_append
  disconnect_calls_append default_disconnect_calls_append

lemmas effect_defs =
  logger_info_def logger_error_def sio_emit_def sio_send_def record_call_def call_user_def

lemmas instance_defs =
  plain_server_def custom_server_def example_interface_def fresh_world_def no_sessions_def
  ServerChannels_get_client_eio_sid_def

lemmas manager_defs =
  mgr_connect_def mgr_disconnect_def sid_from_eio_sid_def eio_sid_from_sid_def

lemmas event_defs =
  on_connect_data_def on_connect_control_def on_disconnect_data_def on_disconnect_control_def

lemma manager_one_data_client:
  "manager one_data_client = mgr_connect ''data'' ''d1'' ''e1'' no_sessions"
  by (simp add: one_data_client_def on_connect_data_def data_connect_callback_def effect_defs
      plain_server_def example_interface_def fresh_world_def)

lemma manager_one_control_client:
  "manager one_control_client = mgr_connect ''control'' ''c1'' ''e1'' no_sessions"
  by (simp add: one_control_client_def on_connect_control_def control_connect_callback_def
      effect_defs plain_server_def example_interface_def fresh_world_def)

lemma manager_after_control_disconnect:
  "manager after_control_disconnect = no_sessions"
  by (simp add: after_control_disconnect_def event_defs control_connect_callback_def
      control_disconnect_callback_def effect_defs plain_server_def example_interface_def
      fresh_world_def mgr_connect_def mgr_disconnect_def no_sessions_def)

lemma send_command_error_repeatedly_manager:
  "manager (send_command_error_repeatedly self message sid n w) = manager w"
  by (induction n arbitrary: w) (simp_all add: send_command_error_def sio_emit_def)

lemma send_command_error_repeatedly_emitted:
  "emitted (journal (send_command_error_repeatedly self message sid n w))
     = emitted (journal w) @ replicate n
         \<lparr>em_event = COMMAND_ERROR_EVENT (iface self),
          em_data = PyDict [(''error'', PyStr message)],
          em_namespace = CONTROL_NAMESPACE (iface self),
          em_to = Some sid\<rparr>"
  by (induction n arbitrary: w)
     (simp_all add: send_command_error_def sio_emit_def journal_append replicate_app_Cons_same)

section \<open>The control command callback\<close>

text \<open>
  C1. A payload whose construction as a Control Command raises a \<^verbatim>\<open>TypeError\<close> (a
  missing \<^verbatim>\<open>cmd_type\<close>, an unexpected field) makes \<^verbatim>\<open>control_command_callback\<close>
  return \<open>(False, message)\<close> with a message that describes the mismatch. It emits exactly
  one event, the error event with payload \<open>{error: message}\<close>, on the CONTROL namespace to
  the originating session. The user-supplied command handler is not invoked: no call of
  it is journalled, the application state is unchanged, and the outcome is the same
  whatever handler is registered.
\<close>

theorem control_command_callback_rejects_unparsable:
  assumes "ControlCommand (iface self) data = Inl (TypeError r)"
  shows "\<exists>message w'.
           control_command_callback self sid data w = (Inr (False, message), w')
         \<and> message = ''Could not parse Control Command. '' @ repr (TypeError r)
         \<and> emitted (journal w') = emitted (journal w) @
             [\<lparr>em_event = COMMAND_ERROR_EVENT (iface self),
               em_data = PyDict [(''error'', PyStr message)],
               em_namespace = CONTROL_NAMESPACE (iface self),
               em_to = Some sid\<rparr>]
         \<and> command_calls (journal w') = command_calls (journal w)
         \<and> app w' = app w
         \<and> (\<forall>h. control_command_callback (self\<lparr>priv_command_callback := h\<rparr>) sid data w
                  = control_command_callback self sid data w)"
  using assms
  by (simp add: control_command_callback_def effect_defs journal_append)

theorem control_command_callback_rejects_unparsable_witness:
  "ControlCommand (iface custom_server) [(''clear_queue'', PyBool True)]
     = Inl (TypeError ''TypeError(missing required argument cmd_type)'')
   \<and> fst (control_command_callback custom_server ''c1'' [(''clear_queue'', PyBool True)] fresh_world)
     = Inr (False, ''Could not parse Control Command. TypeError(missing required argument cmd_type)'')
   \<and> emitted (journal (snd (control_command_callback custom_server ''c1''
        [(''clear_queue'', PyBool True)] fresh_world)))
     = [\<lparr>em_event = ''command_error'',
         em_data = PyDict [(''error'',
           PyStr ''Could not parse Control Command. TypeError(missing required argument cmd_type)'')],
         em_namespace = ''control'',
         em_to = Some ''c1''\<rparr>]
   \<and> app (snd (control_command_callback custom_server ''c1''
        [(''clear_queue'', PyBool True)] fresh_world)) = []"
proof -
  have parse: "ControlCommand (iface custom_server) [(''clear_queue'', PyBool True)]
     = Inl (TypeError ''TypeError(missing required argument cmd_type)'')"
    by (simp add: custom_server_def example_interface_def ControlCommand_spec_def)
  from control_command_callback_rejects_unparsable [OF parse, of "''c1''" fresh_world]
  show ?thesis
    using parse
    by (auto simp add: custom_server_def example_interface_def fresh_world_def)
qed

text \<open>
  C9. When the construction of the Control Command raises a \<^verbatim>\<open>TypeError\<close>, the message
  of the returned outcome \<open>(False, message)\<close> and the string in the \<open>error\<close> field of the
  one event emitted by the call are the same string: \<open>Could not parse Control Command. \<close>
  followed by the \<^verbatim>\<open>repr\<close> of the exception.
\<close>

theorem parse_failure_message_equals_error_field:
  assumes "ControlCommand (iface self) data = Inl (TypeError r)"
  shows "\<exists>message.
           fst (control_command_callback self sid data w) = Inr (False, message)
         \<and> map em_data (drop (length (emitted (journal w)))
              (emitted (journal (snd (control_command_callback self sid data w)))))
             = [PyDict [(''error'', PyStr message)]]
         \<and> message = ''Could not parse Control Command. '' @ repr (TypeError r)"
  using assms
  by (simp add: control_command_callback_def effect_defs journal_append)

theorem parse_failure_message_equals_error_field_witness:
  "ControlCommand (iface plain_server) [(''cmd_type'', PyStr ''INIT''), (''speed'', PyBool True)]
     = Inl (TypeError ''TypeError(unexpected keyword argument speed)'')
   \<and> fst (control_command_callback plain_server ''c7''
        [(''cmd_type'', PyStr ''INIT''), (''speed'', PyBool True)] fresh_world)
     = Inr (False, ''Could not parse Control Command. TypeError(unexpected keyword argument speed)'')
   \<and> map em_data (emitted (journal (snd (control_command_callback plain_server ''c7''
        [(''cmd_type'', PyStr ''INIT''), (''speed'', PyBool True)] fresh_world))))
     = [PyDict [(''error'',
          PyStr ''Could not parse Control Command. TypeError(unexpected keyword argument speed)'')]]"
proof -
  have parse: "ControlCommand (iface plain_server)
       [(''cmd_type'', PyStr ''INIT''), (''speed'', PyBool True)]
     = Inl (TypeError ''TypeError(unexpected keyword argument speed)'')"
    by (simp add: plain_server_def example_interface_def ControlCommand_spec_def)
  from parse_failure_message_equals_error_field [OF parse, of "''c7''" fresh_world]
  show ?thesis
    using parse
    by (auto simp add: fresh_world_def)
qed

text \<open>
  C2. A payload that is constructed into a Control Command, on a server with a registered
  command handler: the handler is invoked exactly once, with the constructed command and
  the originating session id (one call of it is journalled, none of the default, and the
  application state is the one a single run of the handler leaves); the dispatcher emits
  nothing; and the returned outcome is the handler's, also when the handler raises.
\<close>

theorem control_command_callback_dispatches_to_handler:
  assumes "ControlCommand (iface self) data = Inr control_command"
    and "priv_command_callback self = Some handler"
  shows "fst (control_command_callback self sid data w) = fst (handler control_command sid (app w))
       \<and> app (snd (control_command_callback self sid data w)) = snd (handler control_command sid (app w))
       \<and> command_calls (journal (snd (control_command_callback self sid data w)))
           = command_calls (journal w) @ [(control_command, sid)]
       \<and> default_command_calls (journal (snd (control_command_callback self sid data w)))
           = default_command_calls (journal w)
       \<and> emitted (journal (snd (control_command_callback self sid data w))) = emitted (journal w)
       \<and> manager (snd (control_command_callback self sid data w)) = manager w"
  using assms
  by (simp add: control_command_callback_def effect_defs journal_append split: prod.split)

theorem control_command_callback_dispatches_to_handler_witness:
  "ControlCommand (iface custom_server) [(''cmd_type'', PyStr ''INIT'')]
     = Inr \<lparr>cmd_type = PyStr ''INIT'', cmd_fields = []\<rparr>
   \<and> priv_command_callback custom_server = Some init_only
   \<and> fst (control_command_callback custom_server ''c1'' [(''cmd_type'', PyStr ''INIT'')] fresh_world)
       = Inr (True, ''initialised'')
   \<and> app (snd (control_command_callback custom_server ''c1'' [(''cmd_type'', PyStr ''INIT'')] fresh_world))
       = [''c1'']
   \<and> command_calls (journal (snd (control_command_callback custom_server ''c1''
        [(''cmd_type'', PyStr ''INIT'')] fresh_world)))
       = [(\<lparr>cmd_type = PyStr ''INIT'', cmd_fields = []\<rparr>, ''c1'')]
   \<and> emitted (journal (snd (control_command_callback custom_server ''c1''
        [(''cmd_type'', PyStr ''INIT'')] fresh_world))) = []"
proof -
  have parse: "ControlCommand (iface custom_server) [(''cmd_type'', PyStr ''INIT'')]
     = Inr \<lparr>cmd_type = PyStr ''INIT'', cmd_fields = []\<rparr>"
    by (simp add: custom_server_def example_interface_def ControlCommand_spec_def)
  have reg: "priv_command_callback custom_server = Some init_only"
    by (simp add: custom_server_def)
  from control_command_callback_dispatches_to_handler [OF parse reg, of "''c1''" fresh_world]
  show ?thesis
    using parse reg
    by (simp add: init_only_def fresh_world_def)
qed

text \<open>
  C7. A payload that is constructed into a Control Command, on a server without a
  registered command handler: the default handler \<^verbatim>\<open>command_callback\<close> is invoked, once,
  and the outcome is \<open>(True, Control command callback applied)\<close> whatever the command is;
  nothing is emitted and the application state is unchanged.
\<close>

theorem control_command_callback_default_handler:
  assumes "ControlCommand (iface self) data = Inr control_command"
    and "priv_command_callback self = None"
  shows "fst (control_command_callback self sid data w) = Inr (True, ''Control command callback applied'')
       \<and> command_callback self control_command sid = (True, ''Control command callback applied'')
       \<and> default_command_calls (journal (snd (control_command_callback self sid data w)))
           = default_command_calls (journal w) @ [(control_command, sid)]
       \<and> command_calls (journal (snd (control_command_callback self sid data w)))
           = command_calls (journal w)
       \<and> emitted (journal (snd (control_command_callback self sid data w))) = emitted (journal w)
       \<and> app (snd (control_command_callback self sid data w)) = app w"
  using assms
  by (simp add: control_command_callback_def command_callback_def effect_defs journal_append)

theorem control_command_callback_default_handler_witness:
  "ControlCommand (iface plain_server) [(''cmd_type'', PyStr ''ping'')]
     = Inr \<lparr>cmd_type = PyStr ''ping'', cmd_fields = []\<rparr>
   \<and> priv_command_callback plain_server = None
   \<and> fst (control_command_callback plain_server ''c1'' [(''cmd_type'', PyStr ''ping'')] fresh_world)
       = Inr (True, ''Control command callback applied'')
   \<and> emitted (journal (snd (control_command_callback plain_server ''c1''
        [(''cmd_type'', PyStr ''ping'')] fresh_world))) = []"
proof -
  have parse: "ControlCommand (iface plain_server) [(''cmd_type'', PyStr ''ping'')]
     = Inr \<lparr>cmd_type = PyStr ''ping'', cmd_fields = []\<rparr>"
    by (simp add: plain_server_def example_interface_def ControlCommand_spec_def)
  have reg: "priv_command_callback plain_server = None"
    by (simp add: plain_server_def)
  from control_command_callback_default_handler [OF parse reg, of "''c1''" fresh_world]
  show ?thesis
    using parse reg
    by (simp add: fresh_world_def)
qed

section \<open>Emitting a command error\<close>

text \<open>
  C8. For every message and session id, \<^verbatim>\<open>send_command_error\<close> makes one call of the
  transport's emit: the error event with payload \<open>{error: message}\<close> on the CONTROL
  namespace, to the given session. It returns nothing, has no raising branch, and writes
  neither the session tables nor the application state. For a session that is no longer
  in the tables the emission has no recipient, and however often the call is repeated
  the tables stay as they were: the session is not brought back.
\<close>

theorem send_command_error_emits_and_keeps_sessions:
  "\<exists>w'. send_command_error self message sid w = ((), w')
       \<and> emitted (journal w') = emitted (journal w) @
            [\<lparr>em_event = COMMAND_ERROR_EVENT (iface self),
              em_data = PyDict [(''error'', PyStr message)],
              em_namespace = CONTROL_NAMESPACE (iface self),
              em_to = Some sid\<rparr>]
       \<and> manager w' = manager w
       \<and> app w' = app w
       \<and> (eio_sid_from_sid (manager w) sid (CONTROL_NAMESPACE (iface self)) = None \<longrightarrow>
            recipients (manager w')
              \<lparr>em_event = COMMAND_ERROR_EVENT (iface self),
               em_data = PyDict [(''error'', PyStr message)],
               em_namespace = CONTROL_NAMESPACE (iface self),
               em_to = Some sid\<rparr> = {})
       \<and> manager (send_command_error_repeatedly self message sid n w) = manager w
       \<and> emitted (journal (send_command_error_repeatedly self message sid n w))
            = emitted (journal w) @ replicate n
                \<lparr>em_event = COMMAND_ERROR_EVENT (iface self),
                 em_data = PyDict [(''error'', PyStr message)],
                 em_namespace = CONTROL_NAMESPACE (iface self),
                 em_to = Some sid\<rparr>"
  by (simp add: send_command_error_repeatedly_manager send_command_error_repeatedly_emitted)
     (simp add: send_command_error_def sio_emit_def journal_append recipients_def eio_sid_from_sid_def)

theorem send_command_error_emits_and_keeps_sessions_witness:
  "eio_sid_from_sid (manager after_control_disconnect) ''c1'' ''control'' = None
   \<and> recipients (manager (snd (send_command_error plain_server ''late'' ''c1'' after_control_disconnect)))
        \<lparr>em_event = ''command_error'', em_data = PyDict [(''error'', PyStr ''late'')],
         em_namespace = ''control'', em_to = Some ''c1''\<rparr> = {}
   \<and> manager (send_command_error_repeatedly plain_server ''late'' ''c1'' 3 after_control_disconnect)
        = no_sessions"
proof -
  have gone: "eio_sid_from_sid (manager after_control_disconnect) ''c1'' ''control'' = None"
    by (simp add: manager_after_control_disconnect eio_sid_from_sid_def no_sessions_def)
  have names: "CONTROL_NAMESPACE (iface plain_server) = ''control''"
    "COMMAND_ERROR_EVENT (iface plain_server) = ''command_error''"
    by (simp_all add: plain_server_def example_interface_def)
  from send_command_error_emits_and_keeps_sessions
         [of plain_server "''late''" "''c1''" after_control_disconnect 3]
  show ?thesis
    using gone by (auto simp add: names manager_after_control_disconnect)
qed

section \<open>The connect callbacks\<close>

text \<open>
  C5. The welcome of the connect callbacks. \<^verbatim>\<open>data_connect_callback\<close> and
  \<^verbatim>\<open>control_connect_callback\<close> call \<^verbatim>\<open>self._sio.send\<close> with the namespace and
  without \<^verbatim>\<open>to=sid\<close>, unlike the two emissions of the error event in the same class.
  Evaluated on a namespace that already holds a session: the welcome written for the
  second session is addressed to no session, and both sessions receive it.
\<close>

theorem connect_callbacks_broadcast_the_welcome:
  "emitted (journal (snd (on_connect_data plain_server ''d2'' ''e2'' ''environ'' one_data_client)))
     = [\<lparr>em_event = ''message'', em_data = PyStr ''You are connected to data namespace d1'',
         em_namespace = ''data'', em_to = None\<rparr>,
        \<lparr>em_event = ''message'', em_data = PyStr ''You are connected to data namespace d2'',
         em_namespace = ''data'', em_to = None\<rparr>]
   \<and> recipients (manager (snd (on_connect_data plain_server ''d2'' ''e2'' ''environ'' one_data_client)))
        \<lparr>em_event = ''message'', em_data = PyStr ''You are connected to data namespace d2'',
         em_namespace = ''data'', em_to = None\<rparr> = {''d1'', ''d2''}
   \<and> emitted (journal (snd (on_connect_control plain_server ''c2'' ''e2'' ''environ''
        (snd (on_connect_control plain_server ''c1'' ''e1'' ''environ'' fresh_world)))))
     = [\<lparr>em_event = ''message'', em_data = PyStr ''You are connected to control namespace c1'',
         em_namespace = ''control'', em_to = None\<rparr>,
        \<lparr>em_event = ''message'', em_data = PyStr ''You are connected to control namespace c2'',
         em_namespace = ''control'', em_to = None\<rparr>]
   \<and> recipients (manager (snd (on_connect_control plain_server ''c2'' ''e2'' ''environ''
        (snd (on_connect_control plain_server ''c1'' ''e1'' ''environ'' fresh_world)))))
        \<lparr>em_event = ''message'', em_data = PyStr ''You are connected to control namespace c2'',
         em_namespace = ''control'', em_to = None\<rparr> = {''c1'', ''c2''}"
  by (auto simp add: one_data_client_def event_defs data_connect_callback_def
      control_connect_callback_def effect_defs instance_defs manager_defs recipients_def)

text \<open>The connect callbacks write neither the application state nor the session tables.\<close>

lemma connect_callbacks_leave_state:
  "app (snd (data_connect_callback self sid environ w)) = app w
   \<and> manager (snd (data_connect_callback self sid environ w)) = manager w
   \<and> app (snd (control_connect_callback self sid environ w)) = app w
   \<and> manager (snd (control_connect_callback self sid environ w)) = manager w"
  by (simp add: data_connect_callback_def control_connect_callback_def effect_defs)

section \<open>The disconnect callbacks\<close>

text \<open>
  C6. A disconnect event on the DATA namespace. Exactly one of the user-supplied
  disconnect callback (if one is registered) and the default \<^verbatim>\<open>disconnect_callback\<close>
  is invoked, once, with the session id. When the callback has returned, the session
  tables are as they were at the event, so a session id that resolved to its connection
  still does: \<^verbatim>\<open>data_disconnect_callback\<close> does not write the tables, and its log line,
  written after the hook, looks the same session up in them. The session is removed only
  after the callback has returned normally; then it no longer resolves. A disconnect
  event on the CONTROL namespace, for every session id and every world, invokes neither
  the user-supplied callback nor the default and leaves the application state alone;
  its callback does not write the tables either, and the session is removed after it.
\<close>

theorem data_disconnect_hook_runs_before_removal:
  "(\<exists>r w1. data_disconnect_callback self sid w = (r, w1)
     \<and> (case priv_disconnect_callback self of
          Some cb \<Rightarrow>
            r = fst (cb sid (app w)) \<and> app w1 = snd (cb sid (app w))
            \<and> disconnect_calls (journal w1) = disconnect_calls (journal w) @ [sid]
            \<and> default_disconnect_calls (journal w1) = default_disconnect_calls (journal w)
        | None \<Rightarrow>
            r = Inr () \<and> app w1 = app w
            \<and> default_disconnect_calls (journal w1) = default_disconnect_calls (journal w) @ [sid]
            \<and> disconnect_calls (journal w1) = disconnect_calls (journal w))
     \<and> manager w1 = manager w
     \<and> (\<forall>eio_sid. eio_sid_from_sid (manager w) sid (DATA_NAMESPACE (iface self)) = Some eio_sid \<longrightarrow>
            eio_sid_from_sid (manager w1) sid (DATA_NAMESPACE (iface self)) = Some eio_sid)
     \<and> (r = Inr () \<longrightarrow>
          last (journal w1)
            = Log_info (''Client with eio_sid ''
                @ get_client_eio_sid (iface self) (manager w) sid (DATA_NAMESPACE (iface self))
                @ '' disconnected from '' @ DATA_NAMESPACE (iface self)
                @ '' namespace, sid '' @ sid)
          \<and> on_disconnect_data self sid w
            = (Inr (), w1\<lparr>manager := mgr_disconnect (DATA_NAMESPACE (iface self)) sid (manager w1)\<rparr>)
          \<and> eio_sid_from_sid (manager (snd (on_disconnect_data self sid w))) sid
               (DATA_NAMESPACE (iface self)) = None))
   \<and> disconnect_calls (journal (snd (control_disconnect_callback self sid w)))
        = disconnect_calls (journal w)
   \<and> default_disconnect_calls (journal (snd (control_disconnect_callback self sid w)))
        = default_disconnect_calls (journal w)
   \<and> app (snd (control_disconnect_callback self sid w)) = app w
   \<and> manager (snd (control_disconnect_callback self sid w)) = manager w
   \<and> disconnect_calls (journal (snd (on_disconnect_control self sid w))) = disconnect_calls (journal w)
   \<and> default_disconnect_calls (journal (snd (on_disconnect_control self sid w)))
        = default_disconnect_calls (journal w)
   \<and> app (snd (on_disconnect_control self sid w)) = app w
   \<and> eio_sid_from_sid (manager (snd (on_disconnect_control self sid w))) sid
        (CONTROL_NAMESPACE (iface self)) = None"
proof -
  have callback:
    "disconnect_calls (journal (snd (control_disconnect_callback self sid w)))
        = disconnect_calls (journal w)
     \<and> default_disconnect_calls (journal (snd (control_disconnect_callback self sid w)))
        = default_disconnect_calls (journal w)
     \<and> app (snd (control_disconnect_callback self sid w)) = app w
     \<and> manager (snd (control_disconnect_callback self sid w)) = manager w"
    by (simp add: control_disconnect_callback_def effect_defs journal_append)
  have gone: "\<And>m ns. eio_sid_from_sid (mgr_disconnect ns sid m) sid ns = None"
    by (simp add: manager_defs split: option.split)
  have event:
    "disconnect_calls (journal (snd (on_disconnect_control self sid w))) = disconnect_calls (journal w)
     \<and> default_disconnect_calls (journal (snd (on_disconnect_control self sid w)))
         = default_disconnect_calls (journal w)
     \<and> app (snd (on_disconnect_control self sid w)) = app w
     \<and> eio_sid_from_sid (manager (snd (on_disconnect_control self sid w))) sid
          (CONTROL_NAMESPACE (iface self)) = None"
    by (simp add: on_disconnect_control_def control_disconnect_callback_def effect_defs
        journal_append gone)
  have data: "\<exists>r w1. data_disconnect_callback self sid w = (r, w1)
     \<and> (case priv_disconnect_callback self of
          Some cb \<Rightarrow>
            r = fst (cb sid (app w)) \<and> app w1 = snd (cb sid (app w))
            \<and> disconnect_calls (journal w1) = disconnect_calls (journal w) @ [sid]
            \<and> default_disconnect_calls (journal w1) = default_disconnect_calls (journal w)
        | None \<Rightarrow>
            r = Inr () \<and> app w1 = app w
            \<and> default_disconnect_calls (journal w1) = default_disconnect_calls (journal w) @ [sid]
            \<and> disconnect_calls (journal w1) = disconnect_calls (journal w))
     \<and> manager w1 = manager w
     \<and> (\<forall>eio_sid. eio_sid_from_sid (manager w) sid (DATA_NAMESPACE (iface self)) = Some eio_sid \<longrightarrow>
            eio_sid_from_sid (manager w1) sid (DATA_NAMESPACE (iface self)) = Some eio_sid)
     \<and> (r = Inr () \<longrightarrow>
          last (journal w1)
            = Log_info (''Client with eio_sid ''
                @ get_client_eio_sid (iface self) (manager w) sid (DATA_NAMESPACE (iface self))
                @ '' disconnected from '' @ DATA_NAMESPACE (iface self)
                @ '' namespace, sid '' @ sid)
          \<and> on_disconnect_data self sid w
            = (Inr (), w1\<lparr>manager := mgr_disconnect (DATA_NAMESPACE (iface self)) sid (manager w1)\<rparr>)
          \<and> eio_sid_from_sid (manager (snd (on_disconnect_data self sid w))) sid
               (DATA_NAMESPACE (iface self)) = None)"
  proof (cases "priv_disconnect_callback self")
    case None
    then show ?thesis
      by (simp add: data_disconnect_callback_def on_disconnect_data_def disconnect_callback_def
          get_eio_sid_of_data_def effect_defs journal_append gone)
  next
    case (Some cb)
    obtain r a where run: "cb sid (app w) = (r, a)"
      by (cases "cb sid (app w)")
    show ?thesis
    proof (cases r)
      case (Inl e)
      with Some run show ?thesis
        by (simp add: data_disconnect_callback_def effect_defs journal_append)
    next
      case (Inr u)
      with Some run show ?thesis
        by (simp add: data_disconnect_callback_def on_disconnect_data_def
            get_eio_sid_of_data_def effect_defs journal_append gone)
    qed
  qed
  from data callback event show ?thesis
    by blast
qed

theorem data_disconnect_hook_runs_before_removal_witness:
  "eio_sid_from_sid (manager one_data_client) ''d1'' ''data'' = Some ''e1''
   \<and> fst (data_disconnect_callback custom_server ''d1'' one_data_client) = Inr ()
   \<and> app (snd (data_disconnect_callback custom_server ''d1'' one_data_client)) = [''d1'']
   \<and> disconnect_calls (journal (snd (data_disconnect_callback custom_server ''d1'' one_data_client)))
       = [''d1'']
   \<and> eio_sid_from_sid (manager (snd (data_disconnect_callback custom_server ''d1'' one_data_client)))
       ''d1'' ''data'' = Some ''e1''
   \<and> eio_sid_from_sid (manager (snd (on_disconnect_data custom_server ''d1'' one_data_client)))
       ''d1'' ''data'' = None
   \<and> eio_sid_from_sid (manager one_control_client) ''c1'' ''control'' = Some ''e1''
   \<and> disconnect_calls (journal (snd (on_disconnect_control custom_server ''c1'' one_control_client))) = []
   \<and> default_disconnect_calls (journal (snd (on_disconnect_control custom_server ''c1''
        one_control_client))) = []
   \<and> app (snd (on_disconnect_control custom_server ''c1'' one_control_client)) = []
   \<and> eio_sid_from_sid (manager (snd (control_disconnect_callback custom_server ''c1''
        one_control_client))) ''c1'' ''control'' = Some ''e1''
   \<and> eio_sid_from_sid (manager (snd (on_disconnect_control custom_server ''c1'' one_control_client)))
       ''c1'' ''control'' = None"
proof -
  have ns: "DATA_NAMESPACE (iface custom_server) = ''data''"
    "CONTROL_NAMESPACE (iface custom_server) = ''control''"
    by (simp_all add: instance_defs)
  have live: "eio_sid_from_sid (manager one_data_client) ''d1'' ''data'' = Some ''e1''"
    by (simp add: manager_one_data_client manager_defs)
  have live_control: "eio_sid_from_sid (manager one_control_client) ''c1'' ''control'' = Some ''e1''"
    by (simp add: manager_one_control_client manager_defs)
  have reg: "priv_disconnect_callback custom_server = Some note_disconnect"
    by (simp add: custom_server_def)
  have start: "app one_data_client = []" "disconnect_calls (journal one_data_client) = []"
    by (simp_all add: one_data_client_def on_connect_data_def data_connect_callback_def effect_defs
        fresh_world_def)
  have start_control: "app one_control_client = []"
    "disconnect_calls (journal one_control_client) = []"
    "default_disconnect_calls (journal one_control_client) = []"
    by (simp_all add: one_control_client_def on_connect_control_def control_connect_callback_def
        effect_defs fresh_world_def)
  from data_disconnect_hook_runs_before_removal [of custom_server "''d1''" one_data_client]
  obtain r w1 where
    run: "data_disconnect_callback custom_server ''d1'' one_data_client = (r, w1)"
    and rest: "r = fst (note_disconnect ''d1'' (app one_data_client))"
      "app w1 = snd (note_disconnect ''d1'' (app one_data_client))"
      "disconnect_calls (journal w1) = disconnect_calls (journal one_data_client) @ [''d1'']"
      "manager w1 = manager one_data_client"
      "r = Inr () \<longrightarrow> eio_sid_from_sid (manager (snd (on_disconnect_data custom_server ''d1''
          one_data_client))) ''d1'' ''data'' = None"
    by (auto simp add: reg ns)
  from data_disconnect_hook_runs_before_removal [of custom_server "''c1''" one_control_client]
  have control:
    "disconnect_calls (journal (snd (on_disconnect_control custom_server ''c1'' one_control_client)))
       = disconnect_calls (journal one_control_client)"
    "default_disconnect_calls (journal (snd (on_disconnect_control custom_server ''c1''
       one_control_client))) = default_disconnect_calls (journal one_control_client)"
    "app (snd (on_disconnect_control custom_server ''c1'' one_control_client)) = app one_control_client"
    "manager (snd (control_disconnect_callback custom_server ''c1'' one_control_client))
       = manager one_control_client"
    "eio_sid_from_sid (manager (snd (on_disconnect_control custom_server ''c1'' one_control_client)))
       ''c1'' ''control'' = None"
    by (simp_all add: ns)
  show ?thesis
    using live live_control run rest control
    by (simp add: start start_control note_disconnect_def)
qed

section \<open>The identity lookups\<close>

text \<open>
  C3, as the spec states it, fails. With no session for the connection on the namespace
  (never connected, or connected and disconnected again) the lookup of section 4.1 fails
  with \<open>NotFoundError\<close>, while \<^verbatim>\<open>get_sid_of_namespace\<close> returns a value: the string
  \<open>None\<close>.
\<close>

theorem absent_session_lookup_returns_None_string:
  "sessionIdForNamespace (manager fresh_world) ''e1'' ''data'' = NotFoundError
   \<and> get_sid_of_namespace plain_server ''e1'' ''data'' fresh_world = ''None''
   \<and> sessionIdForNamespace (manager after_control_disconnect) ''e1'' ''control'' = NotFoundError
   \<and> get_sid_of_namespace plain_server ''e1'' ''control'' after_control_disconnect = ''None''"
  by (simp add: manager_after_control_disconnect sessionIdForNamespace_def get_sid_of_namespace_def
      sid_from_eio_sid_def fresh_world_def no_sessions_def)

text \<open>
  C3, amended. For every connection and namespace for which no live session exists, where
  the lookups of section 4.1 fail with \<open>NotFoundError\<close>, neither lookup of the server
  fails: the session-id lookup returns the string \<open>None\<close>, and the connection-id lookup
  returns the string that the channel collaborator's \<^verbatim>\<open>get_client_eio_sid\<close> gives for
  the pair, the server adding no check of its own; with a collaborator that renders the
  transport's null result as the server does, that string is \<open>None\<close> as well.
\<close>

theorem lookups_without_session_return_strings:
  assumes "sid_from_eio_sid (manager w) eio_sid ns = None"
    and "eio_sid_from_sid (manager w) sid ns = None"
  shows "sessionIdForNamespace (manager w) eio_sid ns = NotFoundError
       \<and> connectionIdForSession (manager w) sid ns = NotFoundError
       \<and> get_sid_of_namespace self eio_sid ns w = ''None''
       \<and> get_eio_sid_of_namespace self sid ns w = get_client_eio_sid (iface self) (manager w) sid ns
       \<and> (get_client_eio_sid (iface self) = ServerChannels_get_client_eio_sid \<longrightarrow>
            get_eio_sid_of_namespace self sid ns w = ''None'')"
  using assms
  by (simp add: sessionIdForNamespace_def connectionIdForSession_def get_sid_of_namespace_def
      get_eio_sid_of_namespace_def ServerChannels_get_client_eio_sid_def)

theorem lookups_without_session_return_strings_witness:
  "sid_from_eio_sid (manager after_control_disconnect) ''e1'' ''control'' = None
   \<and> eio_sid_from_sid (manager after_control_disconnect) ''c1'' ''control'' = None
   \<and> get_sid_of_namespace plain_server ''e1'' ''control'' after_control_disconnect = ''None''
   \<and> get_eio_sid_of_namespace plain_server ''c1'' ''control'' after_control_disconnect = ''None''"
proof -
  have a: "sid_from_eio_sid (manager after_control_disconnect) ''e1'' ''control'' = None"
    by (simp add: manager_after_control_disconnect sid_from_eio_sid_def no_sessions_def)
  have b: "eio_sid_from_sid (manager after_control_disconnect) ''c1'' ''control'' = None"
    by (simp add: manager_after_control_disconnect eio_sid_from_sid_def no_sessions_def)
  have c: "get_client_eio_sid (iface plain_server) = ServerChannels_get_client_eio_sid"
    by (simp add: plain_server_def example_interface_def)
  from lookups_without_session_return_strings [OF a b, of plain_server] c
  have "get_sid_of_namespace plain_server ''e1'' ''control'' after_control_disconnect = ''None''"
    and "get_eio_sid_of_namespace plain_server ''c1'' ''control'' after_control_disconnect = ''None''"
    by blast+
  with a b show ?thesis
    by blast
qed

text \<open>
  C4. After the connect event of a namespace has completed, with a channel collaborator
  that resolves the live sessions of the transport's tables, the two lookups return each
  other's argument for that connection and namespace: the session id found for the
  connection id leads back to the connection id, and the connection id found for the
  session id leads back to the session id. This holds on the DATA and on the CONTROL
  namespace.
\<close>

theorem lookups_mutually_inverse_after_connect:
  assumes chan: "\<And>m s n e. eio_sid_from_sid m s n = Some e \<Longrightarrow> get_client_eio_sid (iface self) m s n = e"
  shows "(let w' = snd (on_connect_data self sid eio_sid environ w); ns = DATA_NAMESPACE (iface self) in
            get_sid_of_namespace self eio_sid ns w' = sid
          \<and> get_eio_sid_of_namespace self sid ns w' = eio_sid
          \<and> get_eio_sid_of_namespace self (get_sid_of_namespace self eio_sid ns w') ns w' = eio_sid
          \<and> get_sid_of_namespace self (get_eio_sid_of_namespace self sid ns w') ns w' = sid)
       \<and> (let w' = snd (on_connect_control self sid eio_sid environ w); ns = CONTROL_NAMESPACE (iface self) in
            get_sid_of_namespace self eio_sid ns w' = sid
          \<and> get_eio_sid_of_namespace self sid ns w' = eio_sid
          \<and> get_eio_sid_of_namespace self (get_sid_of_namespace self eio_sid ns w') ns w' = eio_sid
          \<and> get_sid_of_namespace self (get_eio_sid_of_namespace self sid ns w') ns w' = sid)"
proof -
  have d: "manager (snd (on_connect_data self sid eio_sid environ w))
             = mgr_connect (DATA_NAMESPACE (iface self)) sid eio_sid (manager w)"
    by (simp add: on_connect_data_def data_connect_callback_def effect_defs)
  have c: "manager (snd (on_connect_control self sid eio_sid environ w))
             = mgr_connect (CONTROL_NAMESPACE (iface self)) sid eio_sid (manager w)"
    by (simp add: on_connect_control_def control_connect_callback_def effect_defs)
  have fwd: "\<And>ns m. sid_from_eio_sid (mgr_connect ns sid eio_sid m) eio_sid ns = Some sid"
    by (simp add: manager_defs)
  have bwd: "\<And>ns m. eio_sid_from_sid (mgr_connect ns sid eio_sid m) sid ns = Some eio_sid"
    by (simp add: manager_defs)
  show ?thesis
    by (simp add: Let_def get_sid_of_namespace_def get_eio_sid_of_namespace_def d c fwd chan [OF bwd])
qed

theorem lookups_mutually_inverse_after_connect_witness:
  "get_sid_of_namespace plain_server ''e1'' ''data''
       (snd (on_connect_data plain_server ''d1'' ''e1'' ''environ'' fresh_world)) = ''d1''
   \<and> get_eio_sid_of_namespace plain_server ''d1'' ''data''
       (snd (on_connect_data plain_server ''d1'' ''e1'' ''environ'' fresh_world)) = ''e1''
   \<and> get_sid_of_namespace plain_server ''e1'' ''control''
       (snd (on_connect_control plain_server ''d1'' ''e1'' ''environ'' fresh_world)) = ''d1''
   \<and> get_eio_sid_of_namespace plain_server ''d1'' ''control''
       (snd (on_connect_control plain_server ''d1'' ''e1'' ''environ'' fresh_world)) = ''e1''"
proof -
  have chan: "\<And>m s n e. eio_sid_from_sid m s n = Some e
      \<Longrightarrow> get_client_eio_sid (iface plain_server) m s n = e"
    by (simp add: instance_defs)
  have ns: "DATA_NAMESPACE (iface plain_server) = ''data''"
       "CONTROL_NAMESPACE (iface plain_server) = ''control''"
    by (simp_all add: instance_defs)
  from lookups_mutually_inverse_after_connect [OF chan, of "''d1''" "''e1''" "''environ''" fresh_world]
  show ?thesis
    by (simp add: Let_def ns)
qed

text \<open>
  C10. \<^verbatim>\<open>get_sid_of_namespace\<close> has no raising branch and returns a string for every
  connection id and namespace: the session id when the transport finds one, and the
  string \<open>None\<close> when it finds none. The result does not tell the two cases apart: a
  world in which the connection has a session whose id is the string \<open>None\<close> gives the
  same result.
\<close>

theorem get_sid_of_namespace_always_a_string:
  "(sid_from_eio_sid (manager w) eio_sid ns = None \<longrightarrow> get_sid_of_namespace self eio_sid ns w = ''None'')
   \<and> (\<forall>sid. sid_from_eio_sid (manager w) eio_sid ns = Some sid \<longrightarrow>
         get_sid_of_namespace self eio_sid ns w = sid)
   \<and> (\<exists>w'. sid_from_eio_sid (manager w') eio_sid ns = Some ''None''
         \<and> get_sid_of_namespace self eio_sid ns w' = ''None'')"
proof -
  have "sid_from_eio_sid (manager (w\<lparr>manager := mgr_connect ns ''None'' eio_sid (manager w)\<rparr>)) eio_sid ns
          = Some ''None''"
    by (simp add: manager_defs)
  then have "\<exists>w'::('a, 'b) world. sid_from_eio_sid (manager w') eio_sid ns = Some ''None''
         \<and> get_sid_of_namespace self eio_sid ns w' = ''None''"
    by (metis get_sid_of_namespace_def str_optional.simps(2))
  then show ?thesis
    by (simp add: get_sid_of_namespace_def)
qed

theorem get_sid_of_namespace_always_a_string_witness:
  "sid_from_eio_sid (manager fresh_world) ''e1'' ''data'' = None
   \<and> get_sid_of_namespace plain_server ''e1'' ''data'' fresh_world = ''None''
   \<and> sid_from_eio_sid (manager one_data_client) ''e1'' ''data'' = Some ''d1''
   \<and> get_sid_of_namespace plain_server ''e1'' ''data'' one_data_client = ''d1''"
proof -
  have a: "sid_from_eio_sid (manager fresh_world) ''e1'' ''data'' = None"
    by (simp add: fresh_world_def no_sessions_def sid_from_eio_sid_def)
  have b: "sid_from_eio_sid (manager one_data_client) ''e1'' ''data'' = Some ''d1''"
    by (simp add: manager_one_data_client manager_defs)
  from get_sid_of_namespace_always_a_string [of fresh_world "''e1''" "''data''" plain_server]
    get_sid_of_namespace_always_a_string [of one_data_client "''e1''" "''data''" plain_server]
  show ?thesis
    using a b by simp
qed

end
